theory Spec2Isabelle
  imports Main "HOL-Library.Sublist"
begin

section \<open>Python values used by the support agent\<close>

subsection \<open>Strings\<close>

text \<open>
  A Python \<open>str\<close> is a sequence of code points. The model uses \<^typ>\<open>string\<close>, whose
  characters carry the code points 0 to 255. On that range \<open>str.lower()\<close> maps each
  character on its own: the ASCII capitals \<open>A\<close> to \<open>Z\<close> (65 to 90) and the Latin-1
  capitals 192 to 222, the multiplication sign 215 excepted, move up by 32; every other
  character stays.
\<close>

definition lower_char :: "char \<Rightarrow> char" where
  "lower_char c =
     (let n = (of_char c :: nat)
      in if (65 \<le> n \<and> n \<le> 90) \<or> (192 \<le> n \<and> n \<le> 222 \<and> n \<noteq> 215)
         then char_of (n + 32) else c)"

definition lower :: "string \<Rightarrow> string" where
  "lower s = map lower_char s"

text \<open>\<open>needle in hay\<close> on strings: \<open>needle\<close> occurs in \<open>hay\<close> as a contiguous run.\<close>

fun startswith :: "string \<Rightarrow> string \<Rightarrow> bool" where
  "startswith hay [] = True"
| "startswith [] (c # cs) = False"
| "startswith (h # hs) (c # cs) = (h = c \<and> startswith hs cs)"

fun str_in :: "string \<Rightarrow> string \<Rightarrow> bool" where
  "str_in needle [] = (needle = [])"
| "str_in needle (h # hs) = (startswith (h # hs) needle \<or> str_in needle hs)"

text \<open>The decimal rendering of an integer, as \<open>str(n)\<close> and \<open>f"{n}"\<close> give it.\<close>

definition digit_char :: "nat \<Rightarrow> char" where
  "digit_char d = char_of (48 + d)"

fun str_nat :: "nat \<Rightarrow> string" where
  "str_nat n =
     (if n < 10 then [digit_char n] else str_nat (n div 10) @ [digit_char (n mod 10)])"

declare str_nat.simps [simp del]

definition str_int :: "int \<Rightarrow> string" where
  "str_int i = (if i < 0 then CHR ''-'' # str_nat (nat (- i)) else str_nat (nat i))"

subsection \<open>Dictionaries\<close>

text \<open>
  A \<open>dict\<close> keeps its entries in insertion order and holds each key once. It is modelled
  as an association list; \<open>dict_wf\<close> is the invariant that every Python dictionary
  satisfies. \<open>dict_get d k default\<close> is \<open>d.get(k, default)\<close>, and \<open>dict_set d k v\<close> is the
  assignment \<open>d[k] = v\<close>: the value of a key already present is replaced where it stands,
  a new key goes to the end.
\<close>

type_synonym ('k, 'v) dict = "('k \<times> 'v) list"

definition dict_wf :: "('k, 'v) dict \<Rightarrow> bool" where
  "dict_wf d = distinct (map fst d)"

fun dict_get :: "('k, 'v) dict \<Rightarrow> 'k \<Rightarrow> 'v \<Rightarrow> 'v" where
  "dict_get [] k dflt = dflt"
| "dict_get ((k', v) # kvs) k dflt = (if k' = k then v else dict_get kvs k dflt)"

fun dict_set :: "('k, 'v) dict \<Rightarrow> 'k \<Rightarrow> 'v \<Rightarrow> ('k, 'v) dict" where
  "dict_set [] k v = [(k, v)]"
| "dict_set ((k', v') # kvs) k v =
     (if k' = k then (k, v) # kvs else (k', v') # dict_set kvs k v)"

definition dict_items :: "('k, 'v) dict \<Rightarrow> ('k \<times> 'v) list" where
  "dict_items d = d"

text \<open>The values of the heterogeneous dictionary that \<open>check_severity\<close> returns.\<close>

datatype pyval = PInt int | PBool bool | PStr string

section \<open>Data model\<close>

type_synonym instant = nat

text \<open>
  \<open>SupportQuery\<close>: the fields \<open>issue\<close>, \<open>severity\<close>, \<open>product\<close>, \<open>user_id\<close>, \<open>timestamp\<close>. The
  first four carry the prefix \<open>q_\<close> here, so that the parameters of the two tools and the
  field of the knowledge base keep their names.
\<close>

record SupportQuery =
  q_issue :: string
  q_severity :: string
  q_product :: string
  q_user_id :: string
  timestamp :: instant

record KnowledgeBase =
  product :: string
  known_issues :: "(string, string) dict"
  solutions :: "(string, string list) dict"

text \<open>Of the run context the tools read the dependency \<open>ctx.deps\<close> only.\<close>

record 'd RunContext =
  deps :: 'd

section \<open>The tool \<open>search_knowledge_base\<close>\<close>

text \<open>
  The loop over \<open>kb.known_issues.items()\<close>, with the dictionary \<open>matches\<close> as its state.
\<close>

fun search_loop ::
  "(string \<times> string) list \<Rightarrow> string \<Rightarrow> (string, string) dict \<Rightarrow> (string, string) dict" where
  "search_loop [] issue matches = matches"
| "search_loop ((known_issue, solution) # rest) issue matches =
     search_loop rest issue
       (if str_in (lower issue) (lower known_issue)
        then dict_set matches known_issue solution else matches)"

definition search_knowledge_base ::
  "KnowledgeBase RunContext \<Rightarrow> string \<Rightarrow> string \<Rightarrow> (string, string) dict" where
  "search_knowledge_base ctx issue product' =
     (let kb = deps ctx
      in if product' \<noteq> product kb
         then [(''error'', ''Product not found in knowledge base'')]
         else search_loop (dict_items (known_issues kb)) issue [])"

section \<open>The tool \<open>check_severity\<close>\<close>

definition severity_levels :: "(string, int) dict" where
  "severity_levels = [(''low'', 1), (''medium'', 2), (''high'', 3), (''critical'', 4)]"

definition critical_keywords :: "string list" where
  "critical_keywords = [''crash'', ''data loss'', ''security'', ''breach'']"

definition check_severity ::
  "KnowledgeBase RunContext \<Rightarrow> string \<Rightarrow> string \<Rightarrow> (string, pyval) dict" where
  "check_severity ctx issue severity =
     (let base_priority = dict_get severity_levels (lower severity) 1;
          base_priority =
            (if list_ex (\<lambda>keyword. str_in keyword (lower issue)) critical_keywords
             then max base_priority 3 else base_priority)
      in [(''priority_level'', PInt base_priority),
          (''needs_escalation'', PBool (base_priority \<ge> 3)),
          (''estimated_time'', PStr (str_int (base_priority * 2) @ ''h''))])"

text \<open>
  The base priority in the words of the specification, for comparison with the code:
  the table low = 1, medium = 2, high = 3, critical = 4 read on the lowercased label, and
  1 for every other label.
\<close>

definition spec_base_priority :: "string \<Rightarrow> int" where
  "spec_base_priority severity =
     (let label = lower severity
      in if label = ''low'' then 1 else if label = ''medium'' then 2
         else if label = ''high'' then 3 else if label = ''critical'' then 4 else 1)"

section \<open>The two knowledge-base literals\<close>

text \<open>The literal bound to \<open>kb\<close> at module scope.\<close>

definition kb :: KnowledgeBase where
  "kb = \<lparr>product = ''CloudDB'',
         known_issues =
           [(''Can't connect to database'', ''Check connection string and firewall rules''),
            (''Database crash'', ''Verify system resources and restart service''),
            (''Slow queries'', ''Analyze query performance and optimize indexes'')],
         solutions =
           [(''connection'',
               [''Check credentials'', ''Verify network access'', ''Test port availability'']),
            (''performance'',
               [''Run diagnostics'', ''Check resource usage'', ''Optimize queries'']),
            (''crash'', [''Collect logs'', ''Check error messages'', ''Restart service''])]\<rparr>"

text \<open>The literal that \<open>handle_support_query\<close> builds and hands to the agent as \<open>deps\<close>.\<close>

definition handle_support_query_kb :: KnowledgeBase where
  "handle_support_query_kb =
     \<lparr>product = ''CloudDB'',
      known_issues =
        [(''Can't connect to database'', ''Check connection string and firewall rules''),
         (''Database crash'', ''Verify system resources and restart service''),
         (''Slow queries'', ''Analyze query performance and optimize indexes'')],
      solutions =
        [(''connection'',
            [''Check credentials'', ''Verify network access'', ''Test port availability'']),
         (''performance'',
            [''Run diagnostics'', ''Check resource usage'', ''Optimize queries'']),
         (''crash'', [''Collect logs'', ''Check error messages'', ''Restart service''])]\<rparr>"

section \<open>The default of \<open>SupportQuery.timestamp\<close>\<close>

text \<open>
  The class body runs once, when the module is loaded: the statement
  \<open>timestamp: datetime.datetime = datetime.datetime.now()\<close> reads the clock there and
  keeps the reading as the default of the field. \<open>SupportQuery_class\<close> is what the class
  statement leaves behind, \<open>define_SupportQuery\<close> the class statement run at the clock
  reading \<open>now\<close>, and \<open>new_SupportQuery\<close> a constructor call made at the clock reading
  \<open>now\<close>, with the timestamp argument given or left out. The constructor does not read
  the clock.
\<close>

record SupportQuery_class =
  default_timestamp :: instant

definition define_SupportQuery :: "instant \<Rightarrow> SupportQuery_class" where
  "define_SupportQuery now = \<lparr>default_timestamp = now\<rparr>"

definition new_SupportQuery ::
  "SupportQuery_class \<Rightarrow> instant \<Rightarrow> string \<Rightarrow> string \<Rightarrow> string \<Rightarrow> string
     \<Rightarrow> instant option \<Rightarrow> SupportQuery" where
  "new_SupportQuery cls now issue severity product' user_id timestamp_arg =
     \<lparr>q_issue = issue, q_severity = severity, q_product = product', q_user_id = user_id,
      timestamp = (case timestamp_arg of None \<Rightarrow> default_timestamp cls | Some t \<Rightarrow> t)\<rparr>"

section \<open>The tools on arbitrary Python values\<close>

text \<open>
  Python checks no parameter annotation when a function is called: the body of a tool
  runs on whatever values it is given, and an operation applied to a value of the wrong
  kind raises. The two tools are written out once more with arguments of type
  \<^typ>\<open>pyval\<close> and a result that is an exception or a value, every step of the body
  in the order in which Python evaluates it. The one operation of the two bodies that
  can raise is the method call \<open>.lower()\<close>, which raises \<open>AttributeError\<close> on a value
  that is not a string; the keys of \<open>known_issues\<close> and the keywords are strings.
\<close>

datatype exn = AttributeError

definition py_lower :: "pyval \<Rightarrow> exn + string" where
  "py_lower v = (case v of PStr s \<Rightarrow> Inr (lower s) | PInt i \<Rightarrow> Inl AttributeError
                 | PBool b \<Rightarrow> Inl AttributeError)"

text \<open>
  The loop of \<open>search_knowledge_base\<close>: \<open>issue.lower()\<close> is evaluated in each round, so
  a loop over no entries raises nothing.
\<close>

fun search_loop_py ::
  "(string \<times> string) list \<Rightarrow> pyval \<Rightarrow> (string, string) dict \<Rightarrow> exn + (string, string) dict"
  where
  "search_loop_py [] issue matches = Inr matches"
| "search_loop_py ((known_issue, solution) # rest) issue matches =
     (case py_lower issue of
        Inl e \<Rightarrow> Inl e
      | Inr lowered \<Rightarrow>
          search_loop_py rest issue
            (if str_in lowered (lower known_issue)
             then dict_set matches known_issue solution else matches))"

text \<open>
  The comparison \<open>product != kb.product\<close> raises on no value: a value that is not a
  string differs from every string.
\<close>

definition search_knowledge_base_py ::
  "KnowledgeBase RunContext \<Rightarrow> pyval \<Rightarrow> pyval \<Rightarrow> exn + (string, string) dict" where
  "search_knowledge_base_py ctx issue product' =
     (let kb = deps ctx
      in if product' \<noteq> PStr (product kb)
         then Inr [(''error'', ''Product not found in knowledge base'')]
         else search_loop_py (dict_items (known_issues kb)) issue [])"

text \<open>
  The generator handed to \<open>any\<close>: for each keyword in turn \<open>issue.lower()\<close> is
  evaluated and searched, and the first hit ends the iteration.
\<close>

fun any_keyword_py :: "pyval \<Rightarrow> string list \<Rightarrow> exn + bool" where
  "any_keyword_py issue [] = Inr False"
| "any_keyword_py issue (keyword # rest) =
     (case py_lower issue of
        Inl e \<Rightarrow> Inl e
      | Inr lowered \<Rightarrow> if str_in keyword lowered then Inr True else any_keyword_py issue rest)"

definition check_severity_py ::
  "KnowledgeBase RunContext \<Rightarrow> pyval \<Rightarrow> pyval \<Rightarrow> exn + (string, pyval) dict" where
  "check_severity_py ctx issue severity =
     (case py_lower severity of
        Inl e \<Rightarrow> Inl e
      | Inr label \<Rightarrow>
          (let base_priority = dict_get severity_levels label 1
           in case any_keyword_py issue critical_keywords of
                Inl e \<Rightarrow> Inl e
              | Inr hit \<Rightarrow>
                  (let base_priority = (if hit then max base_priority 3 else base_priority)
                   in Inr [(''priority_level'', PInt base_priority),
                           (''needs_escalation'', PBool (base_priority \<ge> 3)),
                           (''estimated_time'', PStr (str_int (base_priority * 2) @ ''h''))])))"

section \<open>Auxiliary facts\<close>

lemma startswith_prefix: "startswith hay needle \<longleftrightarrow> prefix needle hay"
  by (induction hay needle rule: startswith.induct) auto

lemma str_in_sublist: "str_in needle hay \<longleftrightarrow> sublist needle hay"
  by (induction hay) (auto simp: startswith_prefix sublist_Cons_right)

lemma dict_set_fresh: "k \<notin> fst ` set d \<Longrightarrow> dict_set d k v = d @ [(k, v)]"
  by (induction d) auto

lemma set_dict_set: "set (dict_set d k v) \<subseteq> insert (k, v) (set d)"
  by (induction d) (auto split: if_splits)

lemma search_loop_filter:
  "distinct (map fst items) \<Longrightarrow> fst ` set acc \<inter> fst ` set items = {} \<Longrightarrow>
   search_loop items issue acc =
     acc @ filter (\<lambda>(k, v). str_in (lower issue) (lower k)) items"
proof (induction items arbitrary: acc)
  case Nil
  then show ?case by simp
next
  case (Cons kv items)
  obtain k v where kv: "kv = (k, v)" by (cases kv)
  from Cons.prems have fresh: "k \<notin> fst ` set acc" and d: "distinct (map fst items)"
    and kn: "k \<notin> fst ` set items" and disj: "fst ` set acc \<inter> fst ` set items = {}"
    by (auto simp: kv)
  show ?case
  proof (cases "str_in (lower issue) (lower k)")
    case True
    have "fst ` set (acc @ [(k, v)]) \<inter> fst ` set items = {}"
      using disj kn by auto
    from Cons.IH[OF d this] True fresh show ?thesis
      by (simp add: kv dict_set_fresh)
  next
    case False
    from Cons.IH[OF d disj] False show ?thesis
      by (simp add: kv)
  qed
qed

lemma search_loop_subset: "set (search_loop items issue acc) \<subseteq> set acc \<union> set items"
proof (induction items arbitrary: acc)
  case Nil
  then show ?case by simp
next
  case (Cons kv items)
  obtain k v where kv: "kv = (k, v)" by (cases kv)
  have "set (search_loop items issue (dict_set acc k v)) \<subseteq> set (dict_set acc k v) \<union> set items"
    by (rule Cons.IH)
  moreover have "set (search_loop items issue acc) \<subseteq> set acc \<union> set items"
    by (rule Cons.IH)
  ultimately show ?case
    using set_dict_set[of acc k v] by (auto simp: kv)
qed

lemma search_knowledge_base_filter:
  assumes "dict_wf (known_issues (deps ctx))" and "product' = product (deps ctx)"
  shows "search_knowledge_base ctx issue product' =
           filter (\<lambda>(k, v). sublist (lower issue) (lower k)) (known_issues (deps ctx))"
  using assms search_loop_filter[of "known_issues (deps ctx)" "[]" issue]
  by (simp add: search_knowledge_base_def dict_items_def dict_wf_def str_in_sublist)

lemma dict_get_severity_levels:
  "dict_get severity_levels s 1 = 
     (if s = ''low'' then 1 else if s = ''medium'' then 2 else if s = ''high'' then 3
      else if s = ''critical'' then 4 else 1)"
  by (simp add: severity_levels_def)

lemma has_keyword_iff:
  "list_ex (\<lambda>keyword. str_in keyword (lower issue)) critical_keywords \<longleftrightarrow>
     (\<exists>keyword \<in> {''crash'', ''data loss'', ''security'', ''breach''}.
        sublist keyword (lower issue))"
  by (simp add: critical_keywords_def str_in_sublist)

lemma str_int_even:
  "str_int 2 = ''2''" "str_int 4 = ''4''" "str_int 6 = ''6''" "str_int 8 = ''8''"
  by code_simp+

lemma lower_labels:
  "lower ''low'' = ''low''" "lower ''medium'' = ''medium''" "lower ''high'' = ''high''"
  "lower ''critical'' = ''critical''" "lower [] = []"
  by code_simp+

lemma check_severity_eq:
  assumes "p = (if list_ex (\<lambda>keyword. str_in keyword (lower issue)) critical_keywords
                then max (dict_get severity_levels (lower severity) 1) 3
                else dict_get severity_levels (lower severity) 1)"
  shows "check_severity ctx issue severity =
           [(''priority_level'', PInt p), (''needs_escalation'', PBool (3 \<le> p)),
            (''estimated_time'', PStr (str_int (p * 2) @ ''h''))]"
  using assms by (simp add: check_severity_def Let_def)

lemma final_priority_range:
  "(if c then max (dict_get severity_levels s 1) 3 else dict_get severity_levels s 1)
     \<in> {1, 2, 3, 4}"
  by (simp add: dict_get_severity_levels)

section \<open>Properties of \<open>check_severity\<close>\<close>

text \<open>
  Claim C1. Whatever the issue and the severity label are, the dictionary returned by
  \<open>check_severity\<close> has a priority level among 1, 2, 3 and 4, and its escalation flag
  is true exactly when the priority level is at least 3.
\<close>

theorem check_severity_invariant:
  "\<exists>p b t. check_severity ctx issue severity =
             [(''priority_level'', PInt p), (''needs_escalation'', PBool b),
              (''estimated_time'', PStr t)]
           \<and> p \<in> {1, 2, 3, 4} \<and> (b \<longleftrightarrow> 3 \<le> p)"
proof -
  define p where "p = (if list_ex (\<lambda>keyword. str_in keyword (lower issue)) critical_keywords
                then max (dict_get severity_levels (lower severity) 1) 3
                else dict_get severity_levels (lower severity) 1)"
  have "p \<in> {1, 2, 3, 4}"
    unfolding p_def by (rule final_priority_range)
  with check_severity_eq[OF p_def, of ctx] show ?thesis
    by blast
qed

theorem check_severity_invariant_witness:
  "\<exists>p b t. check_severity \<lparr>deps = kb\<rparr> ''Database crash'' ''low'' =
             [(''priority_level'', PInt p), (''needs_escalation'', PBool b),
              (''estimated_time'', PStr t)]
           \<and> p \<in> {1, 2, 3, 4} \<and> (b \<longleftrightarrow> 3 \<le> p)"
  by (rule check_severity_invariant)

text \<open>
  Claim C2. The priority level is the base priority of the table low = 1, medium = 2,
  high = 3, critical = 4, read on the lowercased label and raised to 3 when the issue
  holds a critical keyword; a label outside the table has base priority 1; two labels
  that differ in case only give the same result; and the label \<open>critical\<close> gives
  priority level 4 for every issue.
\<close>

theorem check_severity_base_priority:
  "map_of (check_severity ctx issue severity) ''priority_level'' =
     Some (PInt (if \<exists>keyword \<in> set critical_keywords. sublist keyword (lower issue)
                 then max (spec_base_priority severity) 3
                 else spec_base_priority severity))
   \<and> (lower severity \<notin> {''low'', ''medium'', ''high'', ''critical''} \<longrightarrow>
        spec_base_priority severity = 1)
   \<and> (lower severity = lower severity' \<longrightarrow>
        check_severity ctx issue severity = check_severity ctx issue severity')
   \<and> map_of (check_severity ctx x ''critical'') ''priority_level'' = Some (PInt 4)"
proof (intro conjI impI)
  have base: "dict_get severity_levels (lower s) 1 = spec_base_priority s" for s
    by (simp add: dict_get_severity_levels spec_base_priority_def Let_def)
  show "map_of (check_severity ctx issue severity) ''priority_level'' =
     Some (PInt (if \<exists>keyword \<in> set critical_keywords. sublist keyword (lower issue)
                 then max (spec_base_priority severity) 3
                 else spec_base_priority severity))"
    by (simp add: check_severity_eq[OF refl] base list_ex_iff str_in_sublist)
  show "spec_base_priority severity = 1"
    if "lower severity \<notin> {''low'', ''medium'', ''high'', ''critical''}"
    using that by (simp add: spec_base_priority_def Let_def)
  show "check_severity ctx issue severity = check_severity ctx issue severity'"
    if "lower severity = lower severity'"
    using that by (simp add: check_severity_def)
  show "map_of (check_severity ctx x ''critical'') ''priority_level'' = Some (PInt 4)"
    by (simp add: check_severity_eq[OF refl] dict_get_severity_levels lower_labels)
qed

theorem check_severity_base_priority_witness:
  "lower ''CRITICAL'' \<notin> {''low'', ''medium'', ''high''}
   \<and> lower ''CRITICAL'' = lower ''critical''
   \<and> lower ''urgent'' \<notin> {''low'', ''medium'', ''high'', ''critical''}
   \<and> spec_base_priority ''urgent'' = 1
   \<and> check_severity \<lparr>deps = kb\<rparr> ''Slow queries'' ''CRITICAL'' =
       check_severity \<lparr>deps = kb\<rparr> ''Slow queries'' ''critical''
   \<and> map_of (check_severity \<lparr>deps = kb\<rparr> ''Slow queries'' ''CRITICAL'') ''priority_level'' =
       Some (PInt 4)"
proof -
  have h1: "lower ''CRITICAL'' = lower ''critical''" by code_simp
  have h2: "lower ''urgent'' \<notin> {''low'', ''medium'', ''high'', ''critical''}" by code_simp
  have h3: "lower ''CRITICAL'' \<notin> {''low'', ''medium'', ''high''}" by code_simp
  from check_severity_base_priority
         [of "\<lparr>deps = kb\<rparr>" "''Slow queries''" "''urgent''" "''urgent''" "''Slow queries''"] h2
  have a: "spec_base_priority ''urgent'' = 1" by blast
  from check_severity_base_priority
         [of "\<lparr>deps = kb\<rparr>" "''Slow queries''" "''CRITICAL''" "''critical''" "''Slow queries''"] h1
  have b: "check_severity \<lparr>deps = kb\<rparr> ''Slow queries'' ''CRITICAL'' =
       check_severity \<lparr>deps = kb\<rparr> ''Slow queries'' ''critical''"
    and c: "map_of (check_severity \<lparr>deps = kb\<rparr> ''Slow queries'' ''critical'') ''priority_level'' =
       Some (PInt 4)" by blast+
  from h1 h2 h3 a b c show ?thesis by simp
qed

text \<open>
  Claim C3. With the label \<open>low\<close> the priority level is 1, unless the lowercased issue
  contains one of \<open>crash\<close>, \<open>data loss\<close>, \<open>security\<close>, \<open>breach\<close>, and then it is 3; the
  issue \<open>Database crash\<close> with the label \<open>low\<close> gives priority level 3, escalation and
  the estimate \<open>6h\<close>.
\<close>

theorem check_severity_low:
  "map_of (check_severity ctx issue ''low'') ''priority_level'' =
     Some (PInt (if \<exists>keyword \<in> {''crash'', ''data loss'', ''security'', ''breach''}.
                      sublist keyword (lower issue)
                 then 3 else 1))
   \<and> check_severity ctx ''Database crash'' ''low'' =
       [(''priority_level'', PInt 3), (''needs_escalation'', PBool True),
        (''estimated_time'', PStr ''6h'')]"
proof
  show "map_of (check_severity ctx issue ''low'') ''priority_level'' =
     Some (PInt (if \<exists>keyword \<in> {''crash'', ''data loss'', ''security'', ''breach''}.
                      sublist keyword (lower issue)
                 then 3 else 1))"
    by (simp add: check_severity_eq[OF refl] has_keyword_iff dict_get_severity_levels
        lower_labels)
  have kw: "list_ex (\<lambda>keyword. str_in keyword (lower ''Database crash'')) critical_keywords"
    by code_simp
  show "check_severity ctx ''Database crash'' ''low'' =
       [(''priority_level'', PInt 3), (''needs_escalation'', PBool True),
        (''estimated_time'', PStr ''6h'')]"
    using kw
    by (simp add: check_severity_eq[OF refl] dict_get_severity_levels lower_labels
        str_int_even)
qed

theorem check_severity_low_witness:
  "map_of (check_severity \<lparr>deps = kb\<rparr> ''Slow queries'' ''low'') ''priority_level'' =
     Some (PInt 1)
   \<and> map_of (check_severity \<lparr>deps = kb\<rparr> ''Security BREACH'' ''low'') ''priority_level'' =
     Some (PInt 3)"
proof -
  have n: "\<not> (\<exists>keyword \<in> {''crash'', ''data loss'', ''security'', ''breach''}.
                sublist keyword (lower ''Slow queries''))"
    by code_simp
  have y: "\<exists>keyword \<in> {''crash'', ''data loss'', ''security'', ''breach''}.
                sublist keyword (lower ''Security BREACH'')"
    by code_simp
  from check_severity_low[of "\<lparr>deps = kb\<rparr>" "''Slow queries''"] n
  have a: "map_of (check_severity \<lparr>deps = kb\<rparr> ''Slow queries'' ''low'') ''priority_level'' =
     Some (PInt 1)" by simp
  from check_severity_low[of "\<lparr>deps = kb\<rparr>" "''Security BREACH''"] y
  have b: "map_of (check_severity \<lparr>deps = kb\<rparr> ''Security BREACH'' ''low'') ''priority_level'' =
     Some (PInt 3)" by simp
  from a b show ?thesis by simp
qed

text \<open>
  Claim C4. The estimate in the returned dictionary is the decimal rendering of twice
  the priority level followed by \<open>h\<close>: \<open>2h\<close>, \<open>4h\<close>, \<open>6h\<close>, \<open>8h\<close> for the priority levels
  1, 2, 3, 4.
\<close>

theorem check_severity_estimated_time:
  "\<exists>p b. check_severity ctx issue severity =
           [(''priority_level'', PInt p), (''needs_escalation'', PBool b),
            (''estimated_time'', PStr (str_int (p * 2) @ ''h''))]
         \<and> (p, str_int (p * 2) @ ''h'') \<in> {(1, ''2h''), (2, ''4h''), (3, ''6h''), (4, ''8h'')}"
proof -
  define p where "p = (if list_ex (\<lambda>keyword. str_in keyword (lower issue)) critical_keywords
                then max (dict_get severity_levels (lower severity) 1) 3
                else dict_get severity_levels (lower severity) 1)"
  have "p \<in> {1, 2, 3, 4}"
    unfolding p_def by (rule final_priority_range)
  then have "(p, str_int (p * 2) @ ''h'') \<in> {(1, ''2h''), (2, ''4h''), (3, ''6h''), (4, ''8h'')}"
    by (auto simp: str_int_even)
  with check_severity_eq[OF p_def, of ctx] show ?thesis
    by blast
qed

theorem check_severity_estimated_time_witness:
  "\<exists>p b. check_severity \<lparr>deps = kb\<rparr> ''Slow queries'' ''medium'' =
           [(''priority_level'', PInt p), (''needs_escalation'', PBool b),
            (''estimated_time'', PStr (str_int (p * 2) @ ''h''))]
         \<and> (p, str_int (p * 2) @ ''h'') \<in> {(1, ''2h''), (2, ''4h''), (3, ''6h''), (4, ''8h'')}"
  by (rule check_severity_estimated_time)

section \<open>Properties of \<open>search_knowledge_base\<close>\<close>

text \<open>
  Claim C5. When the product argument differs from the product of the knowledge base,
  as strings compared exactly, \<open>search_knowledge_base\<close> returns the dictionary with the
  one entry \<open>error\<close>, \<open>Product not found in knowledge base\<close>; it is an ordinary result.
\<close>

theorem search_knowledge_base_product_mismatch:
  assumes "product' \<noteq> product (deps ctx)"
  shows "search_knowledge_base ctx issue product' =
           [(''error'', ''Product not found in knowledge base'')]"
  using assms by (simp add: search_knowledge_base_def Let_def)

theorem search_knowledge_base_product_mismatch_witness:
  "''clouddb'' \<noteq> product (deps \<lparr>deps = kb\<rparr>)
   \<and> search_knowledge_base \<lparr>deps = kb\<rparr> ''connect'' ''clouddb'' =
       [(''error'', ''Product not found in knowledge base'')]"
proof -
  have h: "''clouddb'' \<noteq> product (deps \<lparr>deps = kb\<rparr>)"
    by (simp add: kb_def)
  from h search_knowledge_base_product_mismatch[OF h, of "''connect''"] show ?thesis
    by simp
qed

text \<open>
  Claim C6. When the product argument is the product of the knowledge base, the result
  holds exactly the entries of \<open>known_issues\<close> whose lowercased key contains the
  lowercased issue, in the order of \<open>known_issues\<close>; on the sample knowledge base the
  issue \<open>connect\<close> finds the one entry for \<open>Can't connect to database\<close>.
\<close>

theorem search_knowledge_base_matches:
  assumes "dict_wf (known_issues (deps ctx))" and "product' = product (deps ctx)"
  shows "search_knowledge_base ctx issue product' =
           filter (\<lambda>(known_issue, solution). sublist (lower issue) (lower known_issue))
             (known_issues (deps ctx))
         \<and> set (search_knowledge_base ctx issue product') =
             {(known_issue, solution). (known_issue, solution) \<in> set (known_issues (deps ctx))
                \<and> sublist (lower issue) (lower known_issue)}
         \<and> dict_wf (search_knowledge_base ctx issue product')
         \<and> search_knowledge_base \<lparr>deps = kb\<rparr> ''connect'' ''CloudDB'' =
             [(''Can't connect to database'', ''Check connection string and firewall rules'')]"
proof -
  let ?P = "\<lambda>(known_issue, solution). sublist (lower issue) (lower known_issue)"
  have eq: "search_knowledge_base ctx issue product' = filter ?P (known_issues (deps ctx))"
    using assms by (rule search_knowledge_base_filter)
  have s: "set (filter ?P (known_issues (deps ctx))) =
             {(known_issue, solution). (known_issue, solution) \<in> set (known_issues (deps ctx))
                \<and> sublist (lower issue) (lower known_issue)}"
    by auto
  have w: "dict_wf (filter ?P (known_issues (deps ctx)))"
    using assms(1) by (simp add: dict_wf_def distinct_map_filter)
  have ex: "search_knowledge_base \<lparr>deps = kb\<rparr> ''connect'' ''CloudDB'' =
             [(''Can't connect to database'', ''Check connection string and firewall rules'')]"
    by code_simp
  from eq s w ex show ?thesis by simp
qed

theorem search_knowledge_base_matches_witness:
  "dict_wf (known_issues (deps \<lparr>deps = kb\<rparr>))
   \<and> ''CloudDB'' = product (deps \<lparr>deps = kb\<rparr>)
   \<and> search_knowledge_base \<lparr>deps = kb\<rparr> ''DATABASE'' ''CloudDB'' =
       [(''Can't connect to database'', ''Check connection string and firewall rules''),
        (''Database crash'', ''Verify system resources and restart service'')]"
proof -
  have h1: "dict_wf (known_issues (deps \<lparr>deps = kb\<rparr>))"
    by (simp add: kb_def dict_wf_def)
  have h2: "''CloudDB'' = product (deps \<lparr>deps = kb\<rparr>)"
    by (simp add: kb_def)
  have f: "filter (\<lambda>(known_issue, solution). sublist (lower ''DATABASE'') (lower known_issue))
             (known_issues (deps \<lparr>deps = kb\<rparr>)) =
       [(''Can't connect to database'', ''Check connection string and firewall rules''),
        (''Database crash'', ''Verify system resources and restart service'')]"
    by code_simp
  from search_knowledge_base_matches[OF h1 h2, of "''DATABASE''"] f h1 h2 show ?thesis
    by simp
qed

text \<open>
  Claim C10. With the empty string as the issue and the product of the knowledge base
  as the product, the result is the whole of \<open>known_issues\<close>.
\<close>

theorem search_knowledge_base_empty_issue:
  assumes "dict_wf (known_issues (deps ctx))"
  shows "search_knowledge_base ctx [] (product (deps ctx)) = known_issues (deps ctx)"
proof -
  have "filter (\<lambda>(k, v). sublist (lower []) (lower k)) (known_issues (deps ctx)) =
          known_issues (deps ctx)"
    by (simp add: lower_def case_prod_unfold)
  with search_knowledge_base_filter[OF assms refl, of "[]"] show ?thesis
    by simp
qed

theorem search_knowledge_base_empty_issue_witness:
  "dict_wf (known_issues (deps \<lparr>deps = kb\<rparr>))
   \<and> search_knowledge_base \<lparr>deps = kb\<rparr> [] ''CloudDB'' =
       [(''Can't connect to database'', ''Check connection string and firewall rules''),
        (''Database crash'', ''Verify system resources and restart service''),
        (''Slow queries'', ''Analyze query performance and optimize indexes'')]"
proof -
  have h: "dict_wf (known_issues (deps \<lparr>deps = kb\<rparr>))"
    by (simp add: kb_def dict_wf_def)
  from search_knowledge_base_empty_issue[OF h] h show ?thesis
    by (simp add: kb_def)
qed

section \<open>Neither tool raises on strings\<close>

lemma search_loop_py_str:
  "search_loop_py items (PStr issue) matches = Inr (search_loop items issue matches)"
  by (induction items issue matches rule: search_loop.induct) (simp_all add: py_lower_def)

lemma any_keyword_py_str:
  "any_keyword_py (PStr issue) kws =
     Inr (list_ex (\<lambda>keyword. str_in keyword (lower issue)) kws)"
  by (induction kws) (simp_all add: py_lower_def)

text \<open>
  Claim C7. Neither tool raises on strings: whatever strings are given for the issue,
  the severity and the product, each body runs to its \<open>return\<close> without taking a raising
  branch, and the value returned is the one the tool computes on those strings. On two
  empty strings \<open>check_severity\<close> returns priority level 1, no escalation and the
  estimate \<open>2h\<close>.
\<close>

theorem tools_total:
  "check_severity_py ctx (PStr issue) (PStr severity) =
     Inr (check_severity ctx issue severity)
   \<and> search_knowledge_base_py ctx (PStr issue) (PStr product') =
       Inr (search_knowledge_base ctx issue product')
   \<and> check_severity_py ctx (PStr []) (PStr []) =
       Inr [(''priority_level'', PInt 1), (''needs_escalation'', PBool False),
            (''estimated_time'', PStr ''2h'')]"
proof (intro conjI)
  show c: "check_severity_py ctx (PStr issue) (PStr severity) =
     Inr (check_severity ctx issue severity)" for issue severity
    by (simp add: check_severity_py_def check_severity_def py_lower_def any_keyword_py_str
        Let_def)
  show "search_knowledge_base_py ctx (PStr issue) (PStr product') =
       Inr (search_knowledge_base ctx issue product')"
    by (simp add: search_knowledge_base_py_def search_knowledge_base_def search_loop_py_str
        Let_def)
  have nk: "\<not> list_ex (\<lambda>keyword. str_in keyword (lower [])) critical_keywords"
    by code_simp
  have "check_severity ctx [] [] =
       [(''priority_level'', PInt 1), (''needs_escalation'', PBool False),
        (''estimated_time'', PStr ''2h'')]"
    using nk
    by (simp add: check_severity_eq[OF refl] dict_get_severity_levels lower_labels
        str_int_even)
  with c[of "[]" "[]"] show "check_severity_py ctx (PStr []) (PStr []) =
       Inr [(''priority_level'', PInt 1), (''needs_escalation'', PBool False),
            (''estimated_time'', PStr ''2h'')]"
    by simp
qed

text \<open>
  On the sample knowledge base: two calls on strings return, and the same calls with an
  integer for the issue raise, so the raising branch of the model is a live one.
\<close>

theorem tools_total_witness:
  "check_severity_py \<lparr>deps = kb\<rparr> (PStr ''Database crash'') (PStr ''low'') =
     Inr [(''priority_level'', PInt 3), (''needs_escalation'', PBool True),
          (''estimated_time'', PStr ''6h'')]
   \<and> search_knowledge_base_py \<lparr>deps = kb\<rparr> (PStr ''connect'') (PStr ''CloudDB'') =
       Inr [(''Can't connect to database'', ''Check connection string and firewall rules'')]
   \<and> check_severity_py \<lparr>deps = kb\<rparr> (PInt 7) (PStr ''low'') = Inl AttributeError
   \<and> search_knowledge_base_py \<lparr>deps = kb\<rparr> (PInt 7) (PStr ''CloudDB'') = Inl AttributeError"
proof -
  have a: "check_severity \<lparr>deps = kb\<rparr> ''Database crash'' ''low'' =
     [(''priority_level'', PInt 3), (''needs_escalation'', PBool True),
      (''estimated_time'', PStr ''6h'')]"
    by code_simp
  have b: "search_knowledge_base \<lparr>deps = kb\<rparr> ''connect'' ''CloudDB'' =
     [(''Can't connect to database'', ''Check connection string and firewall rules'')]"
    by code_simp
  have c: "check_severity_py \<lparr>deps = kb\<rparr> (PInt 7) (PStr ''low'') = Inl AttributeError"
    by code_simp
  have d: "search_knowledge_base_py \<lparr>deps = kb\<rparr> (PInt 7) (PStr ''CloudDB'') =
     Inl AttributeError"
    by code_simp
  from tools_total[of "\<lparr>deps = kb\<rparr>" "''Database crash''" "''low''" "''CloudDB''"]
    tools_total[of "\<lparr>deps = kb\<rparr>" "''connect''" "''low''" "''CloudDB''"] a b c d
  show ?thesis by simp
qed

section \<open>The two knowledge bases agree\<close>

text \<open>
  Claim C9. The knowledge base built at module scope and the one built in
  \<open>handle_support_query\<close> have the same product, the same known issues and the same
  solutions, so they are one value and \<open>search_knowledge_base\<close> answers alike on both.
\<close>

theorem knowledge_bases_equal:
  "product kb = product handle_support_query_kb
   \<and> known_issues kb = known_issues handle_support_query_kb
   \<and> solutions kb = solutions handle_support_query_kb
   \<and> kb = handle_support_query_kb
   \<and> search_knowledge_base \<lparr>deps = kb\<rparr> issue product' =
       search_knowledge_base \<lparr>deps = handle_support_query_kb\<rparr> issue product'"
  by (simp add: kb_def handle_support_query_kb_def)

theorem knowledge_bases_equal_witness:
  "search_knowledge_base \<lparr>deps = kb\<rparr> ''crash'' ''CloudDB'' =
     search_knowledge_base \<lparr>deps = handle_support_query_kb\<rparr> ''crash'' ''CloudDB''"
  using knowledge_bases_equal[of "''crash''" "''CloudDB''"] by blast

section \<open>The default timestamp\<close>

lemma default_timestamp_any:
  "timestamp (new_SupportQuery (define_SupportQuery t0) now issue severity product' user_id None)
     = t0"
  by (simp add: new_SupportQuery_def define_SupportQuery_def)

text \<open>
  Claim C8 says that a query built without a timestamp carries the instant of its own
  creation. The code reads the clock once, in the class body, so every such query
  carries the instant at which the class was defined: with the class defined at
  instant 100, the queries built at the instants 250 and 900 both carry 100.
\<close>

theorem default_timestamp_is_class_definition_time:
  "timestamp (new_SupportQuery (define_SupportQuery 100) 250
       ''Can't connect to database after restart'' ''high'' ''CloudDB'' ''user123'' None) = 100
   \<and> timestamp (new_SupportQuery (define_SupportQuery 100) 900
       ''Can't connect to database after restart'' ''high'' ''CloudDB'' ''user123'' None) = 100"
  by (simp add: new_SupportQuery_def define_SupportQuery_def)

end
